theory Spec2Isabelle
  imports Main "HOL-Library.Word" "HOL-Library.Sublist"
begin

section \<open>JavaScript values used by the logo animator\<close>

text \<open>
  A JavaScript string is a sequence of 16-bit code units. Literals of the source are
  written with \<open>js\<close>, which widens each ASCII character to its code unit.
\<close>

type_synonym jschar = "16 word"
type_synonym jsstring = "jschar list"

definition js :: "string \<Rightarrow> jsstring" where
  "js s = map of_char s"

text \<open>
  \<^verbatim>\<open>String.prototype.includes\<close>: the search string occurs at some position.
\<close>

fun str_includes :: "jsstring \<Rightarrow> jsstring \<Rightarrow> bool" where
  "str_includes [] sub = (sub = [])"
| "str_includes (c # cs) sub = (prefix sub (c # cs) \<or> str_includes cs sub)"

text \<open>
  \<^verbatim>\<open>String.prototype.trim\<close> strips white space and line terminators (ECMAScript
  WhiteSpace and LineTerminator code points, all in the basic plane) from both ends.
\<close>

definition isWhiteSpace :: "jschar \<Rightarrow> bool" where
  "isWhiteSpace c \<longleftrightarrow>
     c \<in> {0x0009, 0x000A, 0x000B, 0x000C, 0x000D, 0x0020, 0x00A0, 0x1680,
          0x2028, 0x2029, 0x202F, 0x205F, 0x3000, 0xFEFF}
     \<or> (0x2000 \<le> c \<and> c \<le> 0x200A)"

definition str_trim :: "jsstring \<Rightarrow> jsstring" where
  "str_trim s = rev (dropWhile isWhiteSpace (rev (dropWhile isWhiteSpace s)))"

text \<open>
  \<^verbatim>\<open>s.split(sep)\<close> for a one-unit separator, and \<^verbatim>\<open>xs[i]\<close>, which is
  \<^verbatim>\<open>undefined\<close> (here \<open>None\<close>) out of range.
\<close>

fun str_split :: "jschar \<Rightarrow> jsstring \<Rightarrow> jsstring list" where
  "str_split sep [] = [[]]"
| "str_split sep (c # cs) =
     (if c = sep then [] # str_split sep cs
      else (case str_split sep cs of
              [] \<Rightarrow> [[c]]
            | p # ps \<Rightarrow> (c # p) # ps))"

fun index :: "'a list \<Rightarrow> nat \<Rightarrow> 'a option" where
  "index [] i = None"
| "index (x # xs) 0 = Some x"
| "index (x # xs) (Suc i) = index xs i"

text \<open>
  Truthiness of a \<^verbatim>\<open>string | null | undefined\<close>: only a non-empty string is truthy.
\<close>

fun truthy :: "jsstring option \<Rightarrow> bool" where
  "truthy None = False"
| "truthy (Some s) = (s \<noteq> [])"

text \<open>
  A thrown value is an \<^verbatim>\<open>Error\<close> object with its message, or any other value,
  kept as what \<^verbatim>\<open>String(value)\<close> gives.
\<close>

datatype thrown = ErrorObj (message: jsstring) | NonError (to_string: jsstring)

text \<open>\<^verbatim>\<open>export type AspectRatio = '16:9' | '9:16'\<close>\<close>

datatype AspectRatio = Landscape | Portrait

fun aspect_text :: "AspectRatio \<Rightarrow> jsstring" where
  "aspect_text Landscape = js ''16:9''"
| "aspect_text Portrait = js ''9:16''"

section \<open>The remote service and the effects of a call\<close>

record image_request =
  gi_model :: jsstring
  gi_prompt :: jsstring
  gi_numberOfImages :: nat
  gi_outputMimeType :: jsstring
  gi_aspectRatio :: jsstring

text \<open>
  \<^verbatim>\<open>response.generatedImages\<close> may be missing; each entry's \<^verbatim>\<open>image\<close> may be
  missing, and so may its \<^verbatim>\<open>imageBytes\<close>.
\<close>

type_synonym generated_image = "jsstring option option"
type_synonym images_response = "generated_image list option"

record video_request =
  gv_model :: jsstring
  gv_prompt :: jsstring
  gv_imageBytes :: "jsstring option"
  gv_mimeType :: jsstring
  gv_numberOfVideos :: nat
  gv_resolution :: jsstring
  gv_aspectRatio :: jsstring

text \<open>
  An operation snapshot: \<^verbatim>\<open>operation.done\<close> and
  \<^verbatim>\<open>operation.response?.generatedVideos?.[0]?.video?.uri\<close>.
\<close>

record operation =
  op_done :: bool
  op_uri :: "jsstring option"

record http_response =
  ok :: bool
  statusText :: jsstring
  blob :: "thrown + jsstring"

text \<open>
  The world outside the program answers each call. The answer to the k-th
  \<^verbatim>\<open>getVideosOperation\<close> of a run is \<open>getVideosOperation w k\<close>, so a remote job
  that never finishes is a world whose every answer has \<open>op_done = False\<close>.
\<close>

record world =
  API_KEY :: "jsstring option"
  generateImages :: "image_request \<Rightarrow> thrown + images_response"
  generateVideos :: "video_request \<Rightarrow> thrown + operation"
  getVideosOperation :: "nat \<Rightarrow> thrown + operation"
  fetch :: "jsstring \<Rightarrow> thrown + http_response"
  createObjectURL :: "jsstring \<Rightarrow> jsstring"
  hasSelectedApiKey :: "bool option"
  openSelectKey :: "thrown + unit"

datatype call =
    GenerateImages image_request
  | GenerateVideos video_request
  | SetTimeout nat
  | GetVideosOperation operation
  | Fetch jsstring
  | OpenSelectKey

text \<open>
  What a run leaves behind: the calls it made, in order, the messages it passed to the
  progress callback, and what it wrote with \<^verbatim>\<open>console.error\<close>.
\<close>

record effects =
  calls :: "call list"
  progress :: "jsstring list"
  console :: "thrown list"

definition no_effects :: effects where
  "no_effects = \<lparr>calls = [], progress = [], console = []\<rparr>"

definition do_call :: "call \<Rightarrow> effects \<Rightarrow> effects" where
  "do_call c eff = eff\<lparr>calls := calls eff @ [c]\<rparr>"

definition updateLoadingMessage :: "jsstring \<Rightarrow> effects \<Rightarrow> effects" where
  "updateLoadingMessage m eff = eff\<lparr>progress := progress eff @ [m]\<rparr>"

definition console_error :: "thrown \<Rightarrow> effects \<Rightarrow> effects" where
  "console_error e eff = eff\<lparr>console := console eff @ [e]\<rparr>"

fun is_poll :: "call \<Rightarrow> bool" where
  "is_poll (GetVideosOperation _) = True"
| "is_poll _ = False"

fun is_submit :: "call \<Rightarrow> bool" where
  "is_submit (GenerateVideos _) = True"
| "is_submit _ = False"

fun is_fetch :: "call \<Rightarrow> bool" where
  "is_fetch (Fetch _) = True"
| "is_fetch _ = False"

section \<open>services/geminiService.ts\<close>

text \<open>
  \<^verbatim>\<open>getGeminiClient\<close> throws when \<^verbatim>\<open>process.env.API_KEY\<close> is falsy; otherwise the
  client is the key it was built with.
\<close>

definition getGeminiClient :: "world \<Rightarrow> thrown + jsstring" where
  "getGeminiClient w =
     (case API_KEY w of
        None \<Rightarrow> Inl (ErrorObj (js ''API_KEY environment variable not set''))
      | Some k \<Rightarrow> if k = [] then Inl (ErrorObj (js ''API_KEY environment variable not set''))
                  else Inr k)"

definition logo_prompt :: "jsstring \<Rightarrow> jsstring" where
  "logo_prompt p =
     js ''A professional, modern logo for a company. Description: '' @ [0x27] @ p @ [0x27]
     @ js ''. Clean vector style, minimalist, high contrast, on a solid transparent background.''"

definition image_request_of :: "jsstring \<Rightarrow> image_request" where
  "image_request_of p =
     \<lparr>gi_model = js ''imagen-4.0-generate-001'',
      gi_prompt = logo_prompt p,
      gi_numberOfImages = 1,
      gi_outputMimeType = js ''image/png'',
      gi_aspectRatio = js ''1:1''\<rparr>"

text \<open>
  The body of the \<^verbatim>\<open>try\<close> of \<^verbatim>\<open>generateLogoImage\<close>. Reading
  \<^verbatim>\<open>generatedImages[0].image.imageBytes\<close> throws a TypeError when \<^verbatim>\<open>image\<close> is
  missing; a missing \<^verbatim>\<open>imageBytes\<close> is printed as \<^verbatim>\<open>undefined\<close> by the template.
\<close>

definition generateLogoImage_try :: "world \<Rightarrow> jsstring \<Rightarrow> (thrown + jsstring) \<times> effects" where
  "generateLogoImage_try w p =
     (case getGeminiClient w of
        Inl e \<Rightarrow> (Inl e, no_effects)
      | Inr ai \<Rightarrow>
          (let eff = do_call (GenerateImages (image_request_of p)) no_effects in
           case generateImages w (image_request_of p) of
             Inl e \<Rightarrow> (Inl e, eff)
           | Inr None \<Rightarrow> (Inl (ErrorObj (js ''No image was generated.'')), eff)
           | Inr (Some []) \<Rightarrow> (Inl (ErrorObj (js ''No image was generated.'')), eff)
           | Inr (Some (None # _)) \<Rightarrow>
               (Inl (ErrorObj (js ''Cannot read properties of undefined (reading ''
                                 @ [0x27] @ js ''imageBytes'' @ [0x27] @ js '')'')), eff)
           | Inr (Some (Some None # _)) \<Rightarrow>
               (Inr (js ''data:image/png;base64,undefined''), eff)
           | Inr (Some (Some (Some base64ImageBytes) # _)) \<Rightarrow>
               (Inr (js ''data:image/png;base64,'' @ base64ImageBytes), eff)))"

definition generateLogoImage :: "world \<Rightarrow> jsstring \<Rightarrow> (thrown + jsstring) \<times> effects" where
  "generateLogoImage w p =
     (case generateLogoImage_try w p of
        (Inr imageData, eff) \<Rightarrow> (Inr imageData, eff)
      | (Inl e, eff) \<Rightarrow>
          (Inl (ErrorObj (js ''Failed to generate logo. Please try a different prompt.'')),
           console_error e eff))"

definition loadingMessages :: "jsstring list" where
  "loadingMessages =
     [js ''Warming up the animation studio...'',
      js ''Rendering initial frames...'',
      js ''Adding visual effects...'',
      js ''This can take a few minutes...'',
      js ''Finalizing the animation...'',
      js ''Almost there, polishing the details...'']"

definition video_request_of :: "jsstring \<Rightarrow> AspectRatio \<Rightarrow> video_request" where
  "video_request_of imageBase64 ar =
     \<lparr>gv_model = js ''veo-3.1-fast-generate-preview'',
      gv_prompt = js ''A sleek, elegant, and short 3D animation of this logo. The animation should feel premium and modern.'',
      gv_imageBytes = index (str_split 0x2C imageBase64) 1,
      gv_mimeType = js ''image/png'',
      gv_numberOfVideos = 1,
      gv_resolution = js ''720p'',
      gv_aspectRatio = aspect_text ar\<rparr>"

text \<open>
  The polling loop \<^verbatim>\<open>while (!operation.done)\<close>. It has no iteration cap: where the
  remote job never reports completion the loop does not return, which is the value
  \<open>None\<close>. \<open>messageIndex\<close> counts the iterations, so it is also the number of the
  poll; it is a natural number here, as a JavaScript number is exact far beyond any
  count of eight-second turns. The progress callback is taken not to throw: the one
  the component passes is a state setter.
\<close>

partial_function (option) poll_loop ::
  "world \<Rightarrow> operation \<Rightarrow> nat \<Rightarrow> effects \<Rightarrow> ((thrown + operation) \<times> effects) option" where
  "poll_loop w operation messageIndex eff =
     (if op_done operation then Some (Inr operation, eff)
      else
        (let eff1 = updateLoadingMessage
                      (loadingMessages ! (messageIndex mod length loadingMessages)) eff;
             eff2 = do_call (SetTimeout 8000) eff1;
             eff3 = do_call (GetVideosOperation operation) eff2
         in case getVideosOperation w messageIndex of
              Inl e \<Rightarrow> Some (Inl e, eff3)
            | Inr operation' \<Rightarrow> poll_loop w operation' (Suc messageIndex) eff3))"

text \<open>What follows the loop: the download link, the fetch and the object URL.\<close>

definition download :: "world \<Rightarrow> jsstring \<Rightarrow> operation \<Rightarrow> effects \<Rightarrow> (thrown + jsstring) \<times> effects" where
  "download w key operation eff =
     (let eff1 = updateLoadingMessage (js ''Animation complete! Fetching video...'') eff in
      if \<not> truthy (op_uri operation) then
        (Inl (ErrorObj (js ''Video generation finished, but no download link was provided.'')), eff1)
      else
        (let url = the (op_uri operation) @ js ''&key='' @ key;
             eff2 = do_call (Fetch url) eff1
         in case fetch w url of
              Inl e \<Rightarrow> (Inl e, eff2)
            | Inr response \<Rightarrow>
                if \<not> ok response then
                  (Inl (ErrorObj (js ''Failed to download video: '' @ statusText response)), eff2)
                else (case blob response of
                        Inl e \<Rightarrow> (Inl e, eff2)
                      | Inr videoBlob \<Rightarrow> (Inr (createObjectURL w videoBlob), eff2))))"

text \<open>The body of the \<^verbatim>\<open>try\<close> of \<^verbatim>\<open>animateLogo\<close>.\<close>

definition animateLogo_try ::
  "world \<Rightarrow> jsstring \<Rightarrow> AspectRatio \<Rightarrow> ((thrown + jsstring) \<times> effects) option" where
  "animateLogo_try w imageBase64 ar =
     (case getGeminiClient w of
        Inl e \<Rightarrow> Some (Inl e, no_effects)
      | Inr key \<Rightarrow>
          (let eff1 = updateLoadingMessage (js ''Initiating animation sequence...'') no_effects;
               eff2 = do_call (GenerateVideos (video_request_of imageBase64 ar)) eff1
           in case generateVideos w (video_request_of imageBase64 ar) of
                Inl e \<Rightarrow> Some (Inl e, eff2)
              | Inr operation \<Rightarrow>
                  (case poll_loop w operation 0 eff2 of
                     None \<Rightarrow> None
                   | Some (Inl e, eff3) \<Rightarrow> Some (Inl e, eff3)
                   | Some (Inr operation', eff3) \<Rightarrow> Some (download w key operation' eff3))))"

text \<open>
  The \<^verbatim>\<open>catch\<close> of \<^verbatim>\<open>animateLogo\<close>: the error is logged, and one of two fixed
  messages is thrown in its place.
\<close>

definition errorMessage :: "thrown \<Rightarrow> jsstring" where
  "errorMessage e = (case e of ErrorObj m \<Rightarrow> m | NonError s \<Rightarrow> s)"

definition animateLogo_catch :: "thrown \<Rightarrow> thrown" where
  "animateLogo_catch e =
     (if str_includes (errorMessage e) (js ''Requested entity was not found'')
      then ErrorObj (js ''Requested entity was not found.'')
      else ErrorObj (js ''Failed to animate logo. Please try again.''))"

definition animateLogo ::
  "world \<Rightarrow> jsstring \<Rightarrow> AspectRatio \<Rightarrow> ((thrown + jsstring) \<times> effects) option" where
  "animateLogo w imageBase64 ar =
     (case animateLogo_try w imageBase64 ar of
        None \<Rightarrow> None
      | Some (Inr url, eff) \<Rightarrow> Some (Inr url, eff)
      | Some (Inl e, eff) \<Rightarrow> Some (Inl (animateLogo_catch e), console_error e eff))"

section \<open>The App component: state and handlers\<close>

text \<open>
  The \<^verbatim>\<open>useState\<close> cells both versions of the component share, then the cell each
  adds: the version with the key gate has \<^verbatim>\<open>apiKeySelected\<close>, the version with the
  help dialog has \<^verbatim>\<open>isHelpModalOpen\<close>. A handler that touches only shared cells is
  written once, for any extension of the shared record.
\<close>

record ui_state =
  prompt :: jsstring
  aspectRatio :: AspectRatio
  generatedImage :: "jsstring option"
  generatedVideoUrl :: "jsstring option"
  isGeneratingImage :: bool
  isGeneratingVideo :: bool
  videoLoadingMessage :: jsstring
  error :: "jsstring option"

record gated_state = ui_state +
  apiKeySelected :: "bool option"

record help_state = ui_state +
  isHelpModalOpen :: bool

definition default_prompt :: jsstring where
  "default_prompt = js ''A minimalist fox icon for a tech startup''"

definition initial_state :: gated_state where
  "initial_state =
     \<lparr>prompt = default_prompt, aspectRatio = Landscape, generatedImage = None,
      generatedVideoUrl = None, isGeneratingImage = False, isGeneratingVideo = False,
      videoLoadingMessage = [], error = None, apiKeySelected = None\<rparr>"

definition setAspectRatio :: "AspectRatio \<Rightarrow> 'a ui_state_scheme \<Rightarrow> 'a ui_state_scheme" where
  "setAspectRatio ar s = s\<lparr>aspectRatio := ar\<rparr>"

definition setVideoLoadingMessage :: "'a ui_state_scheme \<Rightarrow> jsstring \<Rightarrow> 'a ui_state_scheme" where
  "setVideoLoadingMessage s m = s\<lparr>videoLoadingMessage := m\<rparr>"

text \<open>
  The start-up effect: the host's answer when \<^verbatim>\<open>window.aistudio\<close> is there, otherwise
  whether the environment has a key.
\<close>

definition checkApiKey :: "world \<Rightarrow> 'a gated_state_scheme \<Rightarrow> 'a gated_state_scheme" where
  "checkApiKey w s =
     (case hasSelectedApiKey w of
        Some hasKey \<Rightarrow> s\<lparr>apiKeySelected := Some hasKey\<rparr>
      | None \<Rightarrow> s\<lparr>apiKeySelected := Some (truthy (API_KEY w))\<rparr>)"

definition handleSelectKey ::
  "world \<Rightarrow> 'a gated_state_scheme \<Rightarrow> 'a gated_state_scheme \<times> effects" where
  "handleSelectKey w s =
     (let eff = do_call OpenSelectKey no_effects in
      case openSelectKey w of
        Inr _ \<Rightarrow> (s\<lparr>apiKeySelected := Some True\<rparr>, eff)
      | Inl e \<Rightarrow>
          (s\<lparr>error := Some (js ''Could not open API key selection. Please ensure you are in a supported environment.'')\<rparr>,
           console_error e eff))"

text \<open>
  What a handler shows for a caught value:
  \<^verbatim>\<open>e instanceof Error ? e.message : 'An unknown error occurred.'\<close>
\<close>

definition shown_error :: "thrown \<Rightarrow> jsstring" where
  "shown_error e = (case e of ErrorObj m \<Rightarrow> m | NonError _ \<Rightarrow> js ''An unknown error occurred.'')"

text \<open>
  \<^verbatim>\<open>handleGenerateLogo\<close>, the same in both versions. \<open>handleGenerateLogo_begin\<close> is
  the state while the request is in flight; the handler's result is the state once it
  has settled.
\<close>

definition handleGenerateLogo_begin :: "'a ui_state_scheme \<Rightarrow> 'a ui_state_scheme" where
  "handleGenerateLogo_begin s = s\<lparr>error := None, isGeneratingImage := True\<rparr>"

definition handleGenerateLogo ::
  "world \<Rightarrow> 'a ui_state_scheme \<Rightarrow> 'a ui_state_scheme \<times> effects" where
  "handleGenerateLogo w s =
     (if str_trim (prompt s) = [] then
        (s\<lparr>error := Some (js ''Please enter a description for your logo.'')\<rparr>, no_effects)
      else
        (let s1 = handleGenerateLogo_begin s in
         case generateLogoImage w (prompt s) of
           (Inr imageData, eff) \<Rightarrow>
             (s1\<lparr>generatedImage := Some imageData, isGeneratingImage := False\<rparr>, eff)
         | (Inl e, eff) \<Rightarrow>
             (s1\<lparr>error := Some (shown_error e), isGeneratingImage := False\<rparr>, eff)))"

text \<open>
  \<^verbatim>\<open>handleAnimateLogo\<close>. The progress callback is \<^verbatim>\<open>setVideoLoadingMessage\<close>, so
  the messages of the run are written to the state one after the other. The version
  with the key gate also looks for an invalid key in the message it caught.
\<close>

definition handleAnimateLogo_begin :: "'a ui_state_scheme \<Rightarrow> 'a ui_state_scheme" where
  "handleAnimateLogo_begin s =
     s\<lparr>error := None, isGeneratingVideo := True,
       videoLoadingMessage := js ''Starting animation process...''\<rparr>"

definition handleAnimateLogo_plain ::
  "world \<Rightarrow> 'a ui_state_scheme \<Rightarrow> ('a ui_state_scheme \<times> effects) option" where
  "handleAnimateLogo_plain w s =
     (if \<not> truthy (generatedImage s) then Some (s, no_effects)
      else
        (case animateLogo w (the (generatedImage s)) (aspectRatio s) of
           None \<Rightarrow> None
         | Some (r, eff) \<Rightarrow>
             (let s1 = foldl setVideoLoadingMessage (handleAnimateLogo_begin s) (progress eff) in
              case r of
                Inr videoUrl \<Rightarrow>
                  Some (s1\<lparr>generatedVideoUrl := Some videoUrl, isGeneratingVideo := False\<rparr>, eff)
              | Inl e \<Rightarrow>
                  Some (s1\<lparr>error := Some (shown_error e), isGeneratingVideo := False\<rparr>, eff))))"

definition invalid_key :: "thrown \<Rightarrow> bool" where
  "invalid_key e =
     (case e of ErrorObj m \<Rightarrow> str_includes m (js ''API key is invalid'') | NonError _ \<Rightarrow> False)"

definition handleAnimateLogo ::
  "world \<Rightarrow> 'a gated_state_scheme \<Rightarrow> ('a gated_state_scheme \<times> effects) option" where
  "handleAnimateLogo w s =
     (if \<not> truthy (generatedImage s) then Some (s, no_effects)
      else
        (case animateLogo w (the (generatedImage s)) (aspectRatio s) of
           None \<Rightarrow> None
         | Some (r, eff) \<Rightarrow>
             (let s1 = foldl setVideoLoadingMessage (handleAnimateLogo_begin s) (progress eff) in
              case r of
                Inr videoUrl \<Rightarrow>
                  Some (s1\<lparr>generatedVideoUrl := Some videoUrl, isGeneratingVideo := False\<rparr>, eff)
              | Inl e \<Rightarrow>
                  (let s2 = (if invalid_key e then s1\<lparr>apiKeySelected := Some False\<rparr> else s1) in
                   Some (s2\<lparr>error := Some (shown_error e), isGeneratingVideo := False\<rparr>, eff)))))"

definition handleReset :: "'a ui_state_scheme \<Rightarrow> 'a ui_state_scheme" where
  "handleReset s =
     s\<lparr>prompt := default_prompt, generatedImage := None, generatedVideoUrl := None,
       error := None, isGeneratingImage := False, isGeneratingVideo := False\<rparr>"

text \<open>
  \<^verbatim>\<open>renderContent\<close> of the version with the key gate: which child component is on
  screen, with the properties it is given. The component has no stage cell; the stage
  of the view state machine is which child is on screen and whether it is busy.
\<close>

datatype view =
    LoadingSpinner
  | ApiKeyPrompt
  | VideoResult jsstring
  | VideoAnimator jsstring bool jsstring AspectRatio
  | LogoGenerator jsstring bool

definition renderContent :: "'a gated_state_scheme \<Rightarrow> view" where
  "renderContent s =
     (case apiKeySelected s of
        None \<Rightarrow> LoadingSpinner
      | Some False \<Rightarrow> ApiKeyPrompt
      | Some True \<Rightarrow>
          if truthy (generatedVideoUrl s) then VideoResult (the (generatedVideoUrl s))
          else if truthy (generatedImage s) then
            VideoAnimator (the (generatedImage s)) (isGeneratingVideo s)
              (videoLoadingMessage s) (aspectRatio s)
          else LogoGenerator (prompt s) (isGeneratingImage s))"

datatype stage =
  AwaitingCredential | NoCredential | Idle | GeneratingImage | ImageReady | GeneratingVideo
  | VideoReady

fun stage_of_view :: "view \<Rightarrow> stage" where
  "stage_of_view LoadingSpinner = AwaitingCredential"
| "stage_of_view ApiKeyPrompt = NoCredential"
| "stage_of_view (VideoResult url) = VideoReady"
| "stage_of_view (VideoAnimator img isLoading loadingMessage ar) =
     (if isLoading then GeneratingVideo else ImageReady)"
| "stage_of_view (LogoGenerator p isLoading) =
     (if isLoading then GeneratingImage else Idle)"

definition stage_of :: "'a gated_state_scheme \<Rightarrow> stage" where
  "stage_of s = stage_of_view (renderContent s)"

text \<open>The reset control is the button of \<^verbatim>\<open>VideoResult\<close>, and of no other child.\<close>

fun offers_reset :: "view \<Rightarrow> bool" where
  "offers_reset (VideoResult url) = True"
| "offers_reset _ = False"

section \<open>Vocabulary of the properties\<close>

text \<open>
  The snapshots a run of \<^verbatim>\<open>animateLogo\<close> reads, in order: the answer to the
  submission, then the answers to the polls.
\<close>

fun snapshot :: "world \<Rightarrow> video_request \<Rightarrow> nat \<Rightarrow> thrown + operation" where
  "snapshot w req 0 = generateVideos w req"
| "snapshot w req (Suc k) = getVideosOperation w k"

text \<open>
  The run reads the snapshots \<open>pending\<close>, none of them done, and then \<open>final\<close>, which
  is done.
\<close>

definition reads_snapshots ::
  "world \<Rightarrow> video_request \<Rightarrow> operation list \<Rightarrow> operation \<Rightarrow> bool" where
  "reads_snapshots w req pending final \<longleftrightarrow>
     map (snapshot w req) [0..<Suc (length pending)] = map Inr (pending @ [final])
     \<and> list_all (\<lambda>operation. \<not> op_done operation) pending
     \<and> op_done final"

text \<open>The effects of the submission, and of the loop over the snapshots that are not done.\<close>

definition submit_effects :: "jsstring \<Rightarrow> AspectRatio \<Rightarrow> effects" where
  "submit_effects imageBase64 ar =
     do_call (GenerateVideos (video_request_of imageBase64 ar))
       (updateLoadingMessage (js ''Initiating animation sequence...'') no_effects)"

fun loop_effects :: "nat \<Rightarrow> operation list \<Rightarrow> effects \<Rightarrow> effects" where
  "loop_effects messageIndex [] eff = eff"
| "loop_effects messageIndex (operation # ops) eff =
     loop_effects (Suc messageIndex) ops
       (do_call (GetVideosOperation operation)
          (do_call (SetTimeout 8000)
             (updateLoadingMessage
                (loadingMessages ! (messageIndex mod length loadingMessages)) eff)))"

definition count_calls :: "(call \<Rightarrow> bool) \<Rightarrow> effects \<Rightarrow> nat" where
  "count_calls kind eff = length (filter kind (calls eff))"

text \<open>The two messages \<^verbatim>\<open>animateLogo\<close> can fail with, and the text it searches for.\<close>

definition not_found_text :: jsstring where
  "not_found_text = js ''Requested entity was not found''"

definition not_found_message :: jsstring where
  "not_found_message = js ''Requested entity was not found.''"

definition generic_message :: jsstring where
  "generic_message = js ''Failed to animate logo. Please try again.''"

definition no_link_message :: jsstring where
  "no_link_message = js ''Video generation finished, but no download link was provided.''"

subsection \<open>Concrete worlds and states\<close>

definition demo_world ::
  "(thrown + operation) \<Rightarrow> (nat \<Rightarrow> thrown + operation) \<Rightarrow> (thrown + http_response)
     \<Rightarrow> (thrown + unit) \<Rightarrow> world" where
  "demo_world submitted polled fetched chooser =
     \<lparr>API_KEY = Some (js ''KEY''),
      generateImages = (\<lambda>req. Inr (Some [Some (Some (js ''iVBORw0KGgo=''))])),
      generateVideos = (\<lambda>req. submitted),
      getVideosOperation = polled,
      fetch = (\<lambda>url. fetched),
      createObjectURL = (\<lambda>bytes. js ''blob:'' @ bytes),
      hasSelectedApiKey = Some True,
      openSelectKey = chooser\<rparr>"

definition op_pending :: operation where
  "op_pending = \<lparr>op_done = False, op_uri = None\<rparr>"

definition op_finished :: operation where
  "op_finished = \<lparr>op_done = True, op_uri = Some (js ''https://v/1?alt=media'')\<rparr>"

definition op_no_link :: operation where
  "op_no_link = \<lparr>op_done = True, op_uri = None\<rparr>"

definition video_ok :: http_response where
  "video_ok = \<lparr>ok = True, statusText = js ''OK'', blob = Inr (js ''mp4'')\<rparr>"

definition video_forbidden :: http_response where
  "video_forbidden = \<lparr>ok = False, statusText = js ''Forbidden'', blob = Inr (js ''denied'')\<rparr>"

definition logo :: jsstring where
  "logo = js ''data:image/png;base64,iVBORw0KGgo=''"

definition image_ready :: gated_state where
  "image_ready = initial_state\<lparr>apiKeySelected := Some True, generatedImage := Some logo\<rparr>"

definition video_ready :: gated_state where
  "video_ready = image_ready\<lparr>generatedVideoUrl := Some (js ''blob:mp4'')\<rparr>"

definition chooser_failed :: gated_state where
  "chooser_failed =
     initial_state\<lparr>apiKeySelected := Some False,
       error := Some (js ''Could not open API key selection. Please ensure you are in a supported environment.'')\<rparr>"

definition answers_finished :: "nat \<Rightarrow> thrown + operation" where
  "answers_finished k = Inr op_finished"

definition answers_second_finished :: "nat \<Rightarrow> thrown + operation" where
  "answers_second_finished k = (if k = 0 then Inr op_pending else Inr op_finished)"

definition world_two_pending :: world where
  "world_two_pending =
     demo_world (Inr op_pending) answers_second_finished (Inr video_ok) (Inr ())"

definition world_one_pending :: world where
  "world_one_pending = demo_world (Inr op_pending) answers_finished (Inr video_ok) (Inr ())"

definition answers_no_link :: "nat \<Rightarrow> thrown + operation" where
  "answers_no_link k = Inr op_no_link"

definition world_no_link :: world where
  "world_no_link = demo_world (Inr op_pending) answers_no_link (Inr video_ok) (Inr ())"

definition world_forbidden :: world where
  "world_forbidden =
     demo_world (Inr op_pending) answers_finished (Inr video_forbidden) (Inr ())"




definition world_invalid_key :: world where
  "world_invalid_key =
     demo_world (Inl (ErrorObj (js ''API key is invalid''))) answers_finished (Inr video_ok)
       (Inr ())"

definition blank_prompt :: gated_state where
  "blank_prompt =
     initial_state\<lparr>apiKeySelected := Some True, prompt := [0x20, 0x09, 0x0A, 0xA0, 0x3000]\<rparr>"

definition help_initial :: help_state where
  "help_initial =
     \<lparr>prompt = default_prompt, aspectRatio = Landscape, generatedImage = None,
      generatedVideoUrl = None, isGeneratingImage = False, isGeneratingVideo = False,
      videoLoadingMessage = [], error = None, isHelpModalOpen = False\<rparr>"

section \<open>Facts about effects and the polling loop\<close>

lemma effects_simps [simp]:
  "calls (do_call c eff) = calls eff @ [c]"
  "progress (do_call c eff) = progress eff"
  "console (do_call c eff) = console eff"
  "calls (updateLoadingMessage m eff) = calls eff"
  "progress (updateLoadingMessage m eff) = progress eff @ [m]"
  "console (updateLoadingMessage m eff) = console eff"
  "calls (console_error e eff) = calls eff"
  "progress (console_error e eff) = progress eff"
  "console (console_error e eff) = console eff @ [e]"
  "calls no_effects = []" "progress no_effects = []" "console no_effects = []"
  by (simp_all add: do_call_def updateLoadingMessage_def console_error_def no_effects_def)

lemma upt_shift: "[j..<j + Suc n] = j # [Suc j..<Suc j + n]"
  by (metis upt_conv_Cons add_Suc_right add_Suc less_add_Suc1)

lemma calls_loop_effects:
  "calls (loop_effects j ops eff) =
     calls eff @ concat (map (\<lambda>operation. [SetTimeout 8000, GetVideosOperation operation]) ops)"
  by (induction ops arbitrary: j eff) simp_all

lemma length_progress_loop_effects:
  "length (progress (loop_effects j ops eff)) = length (progress eff) + length ops"
  by (induction ops arbitrary: j eff) simp_all

lemma console_loop_effects: "console (loop_effects j ops eff) = console eff"
  by (induction ops arbitrary: j eff) simp_all

lemma poll_loop_done: "op_done operation \<Longrightarrow> poll_loop w operation j eff = Some (Inr operation, eff)"
  by (subst poll_loop.simps) simp

lemma poll_loop_step:
  "\<not> op_done operation \<Longrightarrow> getVideosOperation w j = Inr operation' \<Longrightarrow>
   poll_loop w operation j eff = poll_loop w operation' (Suc j) (loop_effects j [operation] eff)"
  by (subst poll_loop.simps) simp

lemma poll_loop_throws:
  "\<not> op_done operation \<Longrightarrow> getVideosOperation w j = Inl e \<Longrightarrow>
   poll_loop w operation j eff = Some (Inl e, loop_effects j [operation] eff)"
  by (subst poll_loop.simps) simp

lemma poll_loop_run:
  assumes "map (getVideosOperation w) [j..<j + length rest] = map Inr rest"
    and "list_all (\<lambda>operation. \<not> op_done operation) (butlast (operation # rest))"
    and "op_done (last (operation # rest))"
  shows "poll_loop w operation j eff =
           Some (Inr (last (operation # rest)), loop_effects j (butlast (operation # rest)) eff)"
  using assms
proof (induction rest arbitrary: operation j eff)
  case Nil
  then show ?case by (simp add: poll_loop_done)
next
  case (Cons r rest)
  have upt: "[j..<j + length (r # rest)] = j # [Suc j..<Suc j + length rest]"
    unfolding length_Cons by (rule upt_shift)
  from Cons.prems(1) have r: "getVideosOperation w j = Inr r"
    and rest: "map (getVideosOperation w) [Suc j..<Suc j + length rest] = map Inr rest"
    unfolding upt by simp_all
  from Cons.prems(2) have nd: "\<not> op_done operation"
    and nds: "list_all (\<lambda>operation. \<not> op_done operation) (butlast (r # rest))"
    by simp_all
  from Cons.prems(3) have d: "op_done (last (r # rest))" by simp
  have "poll_loop w operation j eff = poll_loop w r (Suc j) (loop_effects j [operation] eff)"
    using nd r by (rule poll_loop_step)
  also have "\<dots> = Some (Inr (last (r # rest)),
                     loop_effects (Suc j) (butlast (r # rest)) (loop_effects j [operation] eff))"
    using rest nds d by (rule Cons.IH)
  finally show ?case by simp
qed


lemma snapshots_split:
  assumes "map (snapshot w req) [0..<Suc (length pending)] = map Inr (pending @ [final])"
  shows "generateVideos w req = Inr (hd (pending @ [final]))"
    and "map (getVideosOperation w) [0..<0 + length (tl (pending @ [final]))]
           = map Inr (tl (pending @ [final]))"
proof -
  have upt: "[0..<Suc (length pending)] = 0 # map Suc [0..<length pending]"
    by (simp add: upt_conv_Cons map_Suc_upt del: upt_Suc)
  obtain x xs where xs: "pending @ [final] = x # xs"
    by (cases "pending @ [final]") simp_all
  then have len: "length xs = length pending"
    by (metis length_append_singleton length_Cons nat.inject)
  from assms have "generateVideos w req # map (getVideosOperation w) [0..<length pending]
                     = Inr x # map Inr xs"
    unfolding upt xs by (simp add: comp_def)
  then show "generateVideos w req = Inr (hd (pending @ [final]))"
    and "map (getVideosOperation w) [0..<0 + length (tl (pending @ [final]))]
           = map Inr (tl (pending @ [final]))"
    by (simp_all add: xs len)
qed

lemma getGeminiClient_key:
  "API_KEY w = Some key \<Longrightarrow> key \<noteq> [] \<Longrightarrow> getGeminiClient w = Inr key"
  by (simp add: getGeminiClient_def)

lemma animateLogo_try_run:
  assumes key: "API_KEY w = Some key" "key \<noteq> []"
    and reads: "reads_snapshots w (video_request_of img ar) pending final"
  shows "animateLogo_try w img ar =
           Some (download w key final (loop_effects 0 pending (submit_effects img ar)))"
proof -
  let ?all = "pending @ [final]"
  from reads have seq: "map (snapshot w (video_request_of img ar)) [0..<Suc (length pending)]
                          = map Inr ?all"
    and nd: "list_all (\<lambda>operation. \<not> op_done operation) pending"
    and d: "op_done final"
    by (simp_all add: reads_snapshots_def)
  have shape: "hd ?all # tl ?all = ?all"
    by simp
  have bl: "butlast (hd ?all # tl ?all) = pending" and la: "last (hd ?all # tl ?all) = final"
    unfolding shape by simp_all
  have loop: "poll_loop w (hd ?all) 0 (submit_effects img ar) =
                Some (Inr final, loop_effects 0 pending (submit_effects img ar))"
    using poll_loop_run [OF snapshots_split(2) [OF seq], of "hd ?all" "submit_effects img ar"]
      nd d unfolding bl la by simp
  show ?thesis
    unfolding animateLogo_try_def
    by (simp add: getGeminiClient_key [OF key] snapshots_split(1) [OF seq]
        loop [unfolded submit_effects_def] submit_effects_def)
qed


lemma download_ok:
  assumes "truthy (op_uri final)"
    and "fetch w (the (op_uri final) @ js ''&key='' @ key) = Inr response"
    and "ok response" and "blob response = Inr videoBlob"
  shows "download w key final eff =
           (Inr (createObjectURL w videoBlob),
            do_call (Fetch (the (op_uri final) @ js ''&key='' @ key))
              (updateLoadingMessage (js ''Animation complete! Fetching video...'') eff))"
  using assms by (simp add: download_def Let_def)

lemma download_no_link:
  assumes "\<not> truthy (op_uri final)"
  shows "download w key final eff =
           (Inl (ErrorObj no_link_message),
            updateLoadingMessage (js ''Animation complete! Fetching video...'') eff)"
  using assms by (simp add: download_def Let_def no_link_message_def)

lemma download_not_ok:
  assumes "truthy (op_uri final)"
    and "fetch w (the (op_uri final) @ js ''&key='' @ key) = Inr response"
    and "\<not> ok response"
  shows "download w key final eff =
           (Inl (ErrorObj (js ''Failed to download video: '' @ statusText response)),
            do_call (Fetch (the (op_uri final) @ js ''&key='' @ key))
              (updateLoadingMessage (js ''Animation complete! Fetching video...'') eff))"
  using assms by (simp add: download_def Let_def)

lemma count_calls_simps [simp]:
  "count_calls kind (do_call c eff) = count_calls kind eff + (if kind c then 1 else 0)"
  "count_calls kind (updateLoadingMessage m eff) = count_calls kind eff"
  "count_calls kind (console_error e eff) = count_calls kind eff"
  "count_calls kind no_effects = 0"
  by (simp_all add: count_calls_def)

lemma count_calls_loop_effects:
  "count_calls kind (loop_effects j ops eff) =
     count_calls kind eff + (if kind (SetTimeout 8000) then length ops else 0)
       + length (filter (\<lambda>operation. kind (GetVideosOperation operation)) ops)"
  by (induction ops arbitrary: j eff) simp_all

text \<open>A run that reads its snapshots and downloads the video, with all its effects.\<close>

lemma animateLogo_returns:
  assumes "API_KEY w = Some key" and "key \<noteq> []"
    and "reads_snapshots w (video_request_of img ar) pending final"
    and "truthy (op_uri final)"
    and "fetch w (the (op_uri final) @ js ''&key='' @ key) = Inr response"
    and "ok response" and "blob response = Inr videoBlob"
  shows "animateLogo w img ar =
           Some (Inr (createObjectURL w videoBlob),
                 do_call (Fetch (the (op_uri final) @ js ''&key='' @ key))
                   (updateLoadingMessage (js ''Animation complete! Fetching video...'')
                      (loop_effects 0 pending (submit_effects img ar))))"
proof -
  have "animateLogo_try w img ar =
          Some (Inr (createObjectURL w videoBlob),
                do_call (Fetch (the (op_uri final) @ js ''&key='' @ key))
                  (updateLoadingMessage (js ''Animation complete! Fetching video...'')
                     (loop_effects 0 pending (submit_effects img ar))))"
    using assms by (simp add: animateLogo_try_run download_ok)
  then show ?thesis
    by (simp add: animateLogo_def)
qed

lemma demo_world_simps [simp]:
  "API_KEY (demo_world submitted polled fetched chooser) = Some (js ''KEY'')"
  "generateVideos (demo_world submitted polled fetched chooser) req = submitted"
  "getVideosOperation (demo_world submitted polled fetched chooser) = polled"
  "fetch (demo_world submitted polled fetched chooser) url = fetched"
  "createObjectURL (demo_world submitted polled fetched chooser) bytes = js ''blob:'' @ bytes"
  "openSelectKey (demo_world submitted polled fetched chooser) = chooser"
  "hasSelectedApiKey (demo_world submitted polled fetched chooser) = Some True"
  by (simp_all add: demo_world_def)

lemma reads_two_pending:
  "reads_snapshots world_two_pending req [op_pending, op_pending] op_finished"
  by (simp add: reads_snapshots_def world_two_pending_def answers_second_finished_def
      op_pending_def op_finished_def)

lemma reads_one_pending:
  "reads_snapshots world_one_pending req [op_pending] op_finished"
  by (simp add: reads_snapshots_def world_one_pending_def answers_finished_def
      op_pending_def op_finished_def)

lemma generic_no_not_found: "\<not> str_includes generic_message not_found_text"
  by (simp add: generic_message_def not_found_text_def js_def)

lemma no_link_no_not_found: "\<not> str_includes no_link_message not_found_text"
  by (simp add: no_link_message_def not_found_text_def js_def)

lemma not_found_has_not_found: "str_includes not_found_message not_found_text"
  by (simp add: not_found_message_def not_found_text_def js_def)

lemma download_failure_not_found:
  "str_includes (js ''Failed to download video: '' @ t) not_found_text
     = str_includes t not_found_text"
  by (simp add: not_found_text_def js_def)

lemma fixed_messages_no_invalid_key:
  "\<not> str_includes generic_message (js ''API key is invalid'')"
  "\<not> str_includes not_found_message (js ''API key is invalid'')"
  by (simp_all add: generic_message_def not_found_message_def js_def)

lemma animateLogo_catch_eq:
  "animateLogo_catch e =
     ErrorObj (if str_includes (errorMessage e) not_found_text then not_found_message
               else generic_message)"
  by (simp add: animateLogo_catch_def not_found_text_def not_found_message_def
      generic_message_def)

lemma str_includes_iff: "str_includes s sub \<longleftrightarrow> sublist sub s"
  by (induction s) (auto simp: sublist_Cons_right)


lemma animateLogo_try_submit_throws:
  assumes "API_KEY w = Some key" and "key \<noteq> []"
    and "generateVideos w (video_request_of img ar) = Inl e"
  shows "animateLogo_try w img ar = Some (Inl e, submit_effects img ar)"
  using assms by (simp add: animateLogo_try_def getGeminiClient_key submit_effects_def)

lemma animateLogo_fails:
  assumes "animateLogo_try w img ar = Some (Inl e, eff)"
  shows "animateLogo w img ar = Some (Inl (animateLogo_catch e), console_error e eff)"
  using assms by (simp add: animateLogo_def)

lemma reads_no_link:
  "reads_snapshots world_no_link req [op_pending] op_no_link"
  by (simp add: reads_snapshots_def world_no_link_def answers_no_link_def
      op_pending_def op_no_link_def)

lemma reads_forbidden:
  "reads_snapshots world_forbidden req [op_pending] op_finished"
  by (simp add: reads_snapshots_def world_forbidden_def answers_finished_def
      op_pending_def op_finished_def)

lemma str_trim_empty_iff: "str_trim p = [] \<longleftrightarrow> (\<forall>c\<in>set p. isWhiteSpace c)"
proof
  assume "str_trim p = []"
  then have all: "\<forall>c\<in>set (dropWhile isWhiteSpace p). isWhiteSpace c"
    by (simp add: str_trim_def)
  have "dropWhile isWhiteSpace p = []"
  proof (rule ccontr)
    assume ne: "dropWhile isWhiteSpace p \<noteq> []"
    then have "\<not> isWhiteSpace (hd (dropWhile isWhiteSpace p))"
      by (rule hd_dropWhile)
    moreover from ne have "hd (dropWhile isWhiteSpace p) \<in> set (dropWhile isWhiteSpace p)"
      by (rule hd_in_set)
    ultimately show False using all by blast
  qed
  then show "\<forall>c\<in>set p. isWhiteSpace c"
    by simp
next
  assume "\<forall>c\<in>set p. isWhiteSpace c"
  then show "str_trim p = []"
    by (auto simp: str_trim_def dest: set_dropWhileD)
qed

lemma foldl_setVideoLoadingMessage:
  "foldl setVideoLoadingMessage s ms = s\<lparr>videoLoadingMessage := last (videoLoadingMessage s # ms)\<rparr>"
  by (induction ms arbitrary: s) (simp_all add: setVideoLoadingMessage_def)

lemma animateLogo_failure_messages:
  assumes "animateLogo w img ar = Some (Inl e, eff)"
  shows "e = ErrorObj not_found_message \<or> e = ErrorObj generic_message"
  using assms
  by (auto simp: animateLogo_def animateLogo_catch_eq split: option.splits sum.splits)

lemma animateLogo_failure_not_invalid_key:
  assumes "animateLogo w img ar = Some (Inl e, eff)"
  shows "\<not> invalid_key e"
  using animateLogo_failure_messages [OF assms]
  by (auto simp: invalid_key_def fixed_messages_no_invalid_key)

lemma handleAnimateLogo_keeps_credential:
  assumes "handleAnimateLogo w s = Some (s', eff)"
  shows "apiKeySelected s' = apiKeySelected s"
proof (cases "truthy (generatedImage s)")
  case False
  with assms show ?thesis by (simp add: handleAnimateLogo_def)
next
  case True
  with assms obtain r where run: "animateLogo w (the (generatedImage s)) (aspectRatio s) = Some (r, eff)"
    by (auto simp: handleAnimateLogo_def Let_def split: option.splits sum.splits if_splits)
  show ?thesis
  proof (cases r)
    case (Inl e)
    with run have "\<not> invalid_key e"
      by (simp add: animateLogo_failure_not_invalid_key)
    with assms True run Inl show ?thesis
      by (auto simp: handleAnimateLogo_def foldl_setVideoLoadingMessage handleAnimateLogo_begin_def)
  next
    case (Inr url)
    with assms True run show ?thesis
      by (auto simp: handleAnimateLogo_def foldl_setVideoLoadingMessage handleAnimateLogo_begin_def)
  qed
qed



lemma poll_loop_extends_calls:
  assumes "poll_loop w operation j eff = Some y"
  shows "prefix (calls eff) (calls (snd y))"
proof (rule poll_loop.raw_induct
    [where P = "\<lambda>w operation j eff y. prefix (calls eff) (calls (snd y))", OF _ assms])
  fix loop w operation j and eff :: effects and y
  assume IH: "\<And>w operation j eff y. loop w operation j eff = Some y
                 \<Longrightarrow> prefix (calls eff) (calls (snd y))"
    and step: "(if op_done operation then Some (Inr operation, eff)
                else
                  (let eff1 = updateLoadingMessage
                                (loadingMessages ! (j mod length loadingMessages)) eff;
                       eff2 = do_call (SetTimeout 8000) eff1;
                       eff3 = do_call (GetVideosOperation operation) eff2
                   in case getVideosOperation w j of
                        Inl e \<Rightarrow> Some (Inl e, eff3)
                      | Inr operation' \<Rightarrow> loop w operation' (Suc j) eff3)) = Some y"
  show "prefix (calls eff) (calls (snd y))"
  proof (cases "op_done operation")
    case True
    with step show ?thesis by auto
  next
    case False
    show ?thesis
    proof (cases "getVideosOperation w j")
      case (Inl e)
      with False step show ?thesis by (auto simp: Let_def prefix_def)
    next
      case (Inr operation')
      with False step have "loop w operation' (Suc j) (loop_effects j [operation] eff) = Some y"
        by (simp add: Let_def)
      then have "prefix (calls (loop_effects j [operation] eff)) (calls (snd y))"
        by (rule IH)
      then show ?thesis
        by (auto simp: prefix_def)
    qed
  qed
qed


lemma download_extends_calls: "prefix (calls eff) (calls (snd (download w key operation eff)))"
  by (simp add: download_def Let_def prefix_def split: sum.splits)

lemma animateLogo_try_first_call:
  assumes "animateLogo_try w img ar = Some (r, eff)" and "calls eff \<noteq> []"
  shows "prefix [GenerateVideos (video_request_of img ar)] (calls eff)"
proof (cases "getGeminiClient w")
  case (Inl e)
  with assms show ?thesis
    by (simp add: animateLogo_try_def)
next
  case key: (Inr key)
  show ?thesis
  proof (cases "generateVideos w (video_request_of img ar)")
    case (Inl e)
    with key assms(1) have "eff = submit_effects img ar"
      by (simp add: animateLogo_try_def submit_effects_def)
    then show ?thesis by (simp add: submit_effects_def)
  next
    case (Inr operation)
    show ?thesis
    proof (cases "poll_loop w operation 0 (submit_effects img ar)")
      case None
      with key Inr assms(1) show ?thesis
        by (simp add: animateLogo_try_def submit_effects_def)
    next
      case (Some y)
      then have sub: "prefix (calls (submit_effects img ar)) (calls (snd y))"
        by (rule poll_loop_extends_calls)
      obtain r1 eff3 where y: "y = (r1, eff3)" by (cases y)
      have "prefix (calls eff3) (calls eff)"
      proof (cases r1)
        case (Inl e)
        with key Inr Some y assms(1) have "eff = eff3"
          by (simp add: animateLogo_try_def submit_effects_def)
        then show ?thesis by simp
      next
        case r1: (Inr operation')
        with key Inr Some y assms(1) have "eff = snd (download w key operation' eff3)"
          by (simp add: animateLogo_try_def submit_effects_def)
        then show ?thesis by (simp add: download_extends_calls)
      qed
      with sub y have "prefix (calls (submit_effects img ar)) (calls eff)"
        by (auto elim: prefix_order.trans)
      then show ?thesis by (simp add: submit_effects_def)
    qed
  qed
qed

lemma animateLogo_first_call:
  assumes "animateLogo w img ar = Some (r, eff)" and "calls eff \<noteq> []"
  shows "hd (calls eff) = GenerateVideos (video_request_of img ar)"
proof -
  from assms(1) obtain r0 eff0 where run: "animateLogo_try w img ar = Some (r0, eff0)"
    and eff: "calls eff = calls eff0"
    by (cases "animateLogo_try w img ar")
      (auto simp: animateLogo_def split: sum.splits)
  from run assms(2) eff have "prefix [GenerateVideos (video_request_of img ar)] (calls eff0)"
    by (simp add: animateLogo_try_first_call)
  with eff show ?thesis
    by (auto simp: prefix_def)
qed

section \<open>The polling loop of animateLogo\<close>

text \<open>
  C1, as the code has it. Let the answer to the submission and the answers to the polls
  be N snapshots that are not done followed by one that is done and has a download
  link, and let the download succeed. Then \<^verbatim>\<open>animateLogo\<close> returns the object URL,
  having made one submission and exactly N calls of \<^verbatim>\<open>getVideosOperation\<close> (N + 1
  calls that answer with a snapshot, the submission among them), and having passed
  N + 2 messages to the progress callback: one before the submission, one in each of
  the N turns of the loop, one after it.
\<close>

theorem animateLogo_polling:
  assumes "API_KEY w = Some key" and "key \<noteq> []"
    and "reads_snapshots w (video_request_of img ar) pending final"
    and "truthy (op_uri final)"
    and "fetch w (the (op_uri final) @ js ''&key='' @ key) = Inr response"
    and "ok response" and "blob response = Inr videoBlob"
  shows "\<exists>eff. animateLogo w img ar = Some (Inr (createObjectURL w videoBlob), eff)
           \<and> count_calls is_submit eff = 1
           \<and> count_calls is_poll eff = length pending
           \<and> length (progress eff) = length pending + 2"
proof -
  let ?eff = "do_call (Fetch (the (op_uri final) @ js ''&key='' @ key))
                (updateLoadingMessage (js ''Animation complete! Fetching video...'')
                   (loop_effects 0 pending (submit_effects img ar)))"
  have "animateLogo w img ar = Some (Inr (createObjectURL w videoBlob), ?eff)"
    using assms by (rule animateLogo_returns)
  moreover have "count_calls is_submit ?eff = 1"
    by (simp add: count_calls_loop_effects submit_effects_def)
  moreover have "count_calls is_poll ?eff = length pending"
    by (simp add: count_calls_loop_effects submit_effects_def)
  moreover have "length (progress ?eff) = length pending + 2"
    by (simp add: length_progress_loop_effects submit_effects_def)
  ultimately show ?thesis by blast
qed

theorem animateLogo_polling_witness:
  "\<exists>eff. animateLogo world_two_pending logo Landscape = Some (Inr (js ''blob:mp4''), eff)
         \<and> count_calls is_submit eff = 1
         \<and> count_calls is_poll eff = 2
         \<and> length (progress eff) = 4"
proof -
  have "\<exists>eff. animateLogo world_two_pending logo Landscape
                 = Some (Inr (createObjectURL world_two_pending (js ''mp4'')), eff)
           \<and> count_calls is_submit eff = 1
           \<and> count_calls is_poll eff = length [op_pending, op_pending]
           \<and> length (progress eff) = length [op_pending, op_pending] + 2"
    by (rule animateLogo_polling [where key = "js ''KEY''" and response = video_ok,
          OF _ _ reads_two_pending])
      (simp_all add: world_two_pending_def op_finished_def video_ok_def js_def)
  then show ?thesis
    by (simp add: world_two_pending_def js_def eval_nat_numeral)
qed

text \<open>
  The claim counts N + 1 polling calls. With one snapshot that is not done (the answer
  to the submission) and the first poll answering done, N is 1 and the run polls once.
\<close>

theorem animateLogo_polling_counterexample:
  "reads_snapshots world_one_pending (video_request_of logo Landscape) [op_pending] op_finished
   \<and> map_option (calls \<circ> snd) (animateLogo world_one_pending logo Landscape)
       = Some [GenerateVideos (video_request_of logo Landscape), SetTimeout 8000,
               GetVideosOperation op_pending, Fetch (js ''https://v/1?alt=media&key=KEY'')]
   \<and> map_option (count_calls is_poll \<circ> snd) (animateLogo world_one_pending logo Landscape)
       = Some 1
   \<and> (1::nat) \<noteq> length [op_pending] + 1"
proof -
  have "animateLogo world_one_pending logo Landscape =
          Some (Inr (createObjectURL world_one_pending (js ''mp4'')),
                do_call (Fetch (the (op_uri op_finished) @ js ''&key='' @ js ''KEY''))
                  (updateLoadingMessage (js ''Animation complete! Fetching video...'')
                     (loop_effects 0 [op_pending] (submit_effects logo Landscape))))"
    by (rule animateLogo_returns [where response = video_ok, OF _ _ reads_one_pending])
      (simp_all add: world_one_pending_def op_finished_def video_ok_def js_def)
  then have "map_option (calls \<circ> snd) (animateLogo world_one_pending logo Landscape)
               = Some [GenerateVideos (video_request_of logo Landscape), SetTimeout 8000,
                       GetVideosOperation op_pending, Fetch (js ''https://v/1?alt=media&key=KEY'')]"
    and "map_option (count_calls is_poll \<circ> snd) (animateLogo world_one_pending logo Landscape)
               = Some 1"
    by (simp_all add: submit_effects_def op_finished_def js_def)
  then show ?thesis
    using reads_one_pending by simp
qed

section \<open>Error classification of animateLogo\<close>




section \<open>A finished operation without a download link\<close>

text \<open>
  C4, as the code has it. When the snapshot that ends the loop is done and has no
  download link, \<^verbatim>\<open>animateLogo\<close> throws the error
  \<^verbatim>\<open>Video generation finished, but no download link was provided.\<close> inside its
  \<^verbatim>\<open>try\<close>, where it is caught and logged; the caller gets the generic message
  \<^verbatim>\<open>Failed to animate logo. Please try again.\<close>, and no fetch is made.
\<close>

theorem animateLogo_no_download_link:
  assumes "API_KEY w = Some key" and "key \<noteq> []"
    and "reads_snapshots w (video_request_of img ar) pending final"
    and "\<not> truthy (op_uri final)"
  shows "\<exists>eff. animateLogo w img ar = Some (Inl (ErrorObj generic_message), eff)
           \<and> console eff = [ErrorObj no_link_message]
           \<and> count_calls is_fetch eff = 0"
proof -
  let ?eff = "updateLoadingMessage (js ''Animation complete! Fetching video...'')
                (loop_effects 0 pending (submit_effects img ar))"
  have "animateLogo_try w img ar = Some (Inl (ErrorObj no_link_message), ?eff)"
    using assms by (simp add: animateLogo_try_run download_no_link)
  then have "animateLogo w img ar =
               Some (Inl (animateLogo_catch (ErrorObj no_link_message)),
                     console_error (ErrorObj no_link_message) ?eff)"
    by (rule animateLogo_fails)
  moreover have "animateLogo_catch (ErrorObj no_link_message) = ErrorObj generic_message"
    by (simp add: animateLogo_catch_eq errorMessage_def no_link_no_not_found)
  moreover have "console (console_error (ErrorObj no_link_message) ?eff)
                   = [ErrorObj no_link_message]"
    by (simp add: console_loop_effects submit_effects_def)
  moreover have "count_calls is_fetch (console_error (ErrorObj no_link_message) ?eff) = 0"
    by (simp add: count_calls_loop_effects submit_effects_def)
  ultimately show ?thesis by simp
qed

theorem animateLogo_no_download_link_witness:
  "\<exists>eff. animateLogo world_no_link logo Landscape = Some (Inl (ErrorObj generic_message), eff)
         \<and> console eff = [ErrorObj no_link_message]
         \<and> count_calls is_fetch eff = 0"
  by (rule animateLogo_no_download_link [where key = "js ''KEY''", OF _ _ reads_no_link])
    (simp_all add: world_no_link_def op_no_link_def js_def)

text \<open>
  The claim has \<^verbatim>\<open>animateLogo\<close> fail with the error about the missing link. The
  caller gets the generic message instead.
\<close>

theorem animateLogo_no_download_link_counterexample:
  "reads_snapshots world_no_link (video_request_of logo Landscape) [op_pending] op_no_link
   \<and> op_done op_no_link \<and> \<not> truthy (op_uri op_no_link)
   \<and> map_option fst (animateLogo world_no_link logo Landscape)
       = Some (Inl (ErrorObj (js ''Failed to animate logo. Please try again.'')))
   \<and> ErrorObj (js ''Failed to animate logo. Please try again.'')
       \<noteq> ErrorObj (js ''Video generation finished, but no download link was provided.'')"
proof -
  have "animateLogo_try world_no_link logo Landscape =
          Some (download world_no_link (js ''KEY'') op_no_link
                  (loop_effects 0 [op_pending] (submit_effects logo Landscape)))"
    by (rule animateLogo_try_run [OF _ _ reads_no_link])
      (simp_all add: world_no_link_def js_def)
  then have "animateLogo_try world_no_link logo Landscape =
          Some (Inl (ErrorObj no_link_message),
                updateLoadingMessage (js ''Animation complete! Fetching video...'')
                  (loop_effects 0 [op_pending] (submit_effects logo Landscape)))"
    by (simp add: download_no_link op_no_link_def)
  then have "map_option fst (animateLogo world_no_link logo Landscape)
               = Some (Inl (animateLogo_catch (ErrorObj no_link_message)))"
    by (simp add: animateLogo_def)
  then have "map_option fst (animateLogo world_no_link logo Landscape)
               = Some (Inl (ErrorObj (js ''Failed to animate logo. Please try again.'')))"
    by (simp add: animateLogo_catch_eq errorMessage_def no_link_no_not_found
        generic_message_def)
  moreover have "ErrorObj (js ''Failed to animate logo. Please try again.'')
       \<noteq> ErrorObj (js ''Video generation finished, but no download link was provided.'')"
    by (simp add: js_def)
  moreover have "op_done op_no_link \<and> \<not> truthy (op_uri op_no_link)"
    by (simp add: op_no_link_def)
  ultimately show ?thesis using reads_no_link by simp
qed

section \<open>A download that is refused\<close>

text \<open>
  C5, as the code has it. When the response to the fetch is not ok,
  \<^verbatim>\<open>animateLogo\<close> returns no object URL: it throws an error whose message ends
  with the status text inside its \<^verbatim>\<open>try\<close>, where it is caught and logged, and
  the caller gets one of the two fixed messages:
  \<^verbatim>\<open>Requested entity was not found.\<close> when the status text contains
  \<^verbatim>\<open>Requested entity was not found\<close>, and
  \<^verbatim>\<open>Failed to animate logo. Please try again.\<close> otherwise.
\<close>

theorem animateLogo_download_refused:
  assumes "API_KEY w = Some key" and "key \<noteq> []"
    and "reads_snapshots w (video_request_of img ar) pending final"
    and "truthy (op_uri final)"
    and "fetch w (the (op_uri final) @ js ''&key='' @ key) = Inr response"
    and "\<not> ok response"
  shows "\<exists>eff. animateLogo w img ar =
                 Some (Inl (ErrorObj (if str_includes (statusText response) not_found_text
                                      then not_found_message else generic_message)), eff)
           \<and> console eff = [ErrorObj (js ''Failed to download video: '' @ statusText response)]"
proof -
  let ?e = "ErrorObj (js ''Failed to download video: '' @ statusText response)"
  let ?eff = "do_call (Fetch (the (op_uri final) @ js ''&key='' @ key))
                (updateLoadingMessage (js ''Animation complete! Fetching video...'')
                   (loop_effects 0 pending (submit_effects img ar)))"
  have "animateLogo_try w img ar = Some (Inl ?e, ?eff)"
    using assms by (simp add: animateLogo_try_run download_not_ok)
  then have "animateLogo w img ar = Some (Inl (animateLogo_catch ?e), console_error ?e ?eff)"
    by (rule animateLogo_fails)
  moreover have "animateLogo_catch ?e =
                   ErrorObj (if str_includes (statusText response) not_found_text
                             then not_found_message else generic_message)"
    unfolding animateLogo_catch_eq errorMessage_def thrown.case download_failure_not_found ..
  moreover have "console (console_error ?e ?eff) = [?e]"
    by (simp add: console_loop_effects submit_effects_def)
  ultimately show ?thesis by simp
qed

theorem animateLogo_download_refused_witness:
  "\<exists>eff. animateLogo world_forbidden logo Landscape = Some (Inl (ErrorObj generic_message), eff)
         \<and> console eff = [ErrorObj (js ''Failed to download video: Forbidden'')]"
proof -
  have nf: "\<not> str_includes (js ''Forbidden'') not_found_text"
    by (simp add: not_found_text_def js_def)
  have "\<exists>eff. animateLogo world_forbidden logo Landscape =
                 Some (Inl (ErrorObj (if str_includes (statusText video_forbidden) not_found_text
                                      then not_found_message else generic_message)), eff)
           \<and> console eff
               = [ErrorObj (js ''Failed to download video: '' @ statusText video_forbidden)]"
    by (rule animateLogo_download_refused [where key = "js ''KEY''", OF _ _ reads_forbidden])
      (simp_all add: world_forbidden_def op_finished_def video_forbidden_def js_def)
  then show ?thesis
    using nf by (simp add: video_forbidden_def js_def)
qed

text \<open>
  The claim has the error of \<^verbatim>\<open>animateLogo\<close> carry the status text. The status
  text here is \<^verbatim>\<open>Forbidden\<close>; the caller gets the generic message, which does
  not contain it.
\<close>

theorem animateLogo_download_refused_counterexample:
  "reads_snapshots world_forbidden (video_request_of logo Landscape) [op_pending] op_finished
   \<and> fetch world_forbidden (js ''https://v/1?alt=media&key=KEY'') = Inr video_forbidden
   \<and> \<not> ok video_forbidden \<and> statusText video_forbidden = js ''Forbidden''
   \<and> map_option fst (animateLogo world_forbidden logo Landscape)
       = Some (Inl (ErrorObj (js ''Failed to animate logo. Please try again.'')))
   \<and> \<not> str_includes (js ''Failed to animate logo. Please try again.'') (js ''Forbidden'')"
proof -
  let ?e = "ErrorObj (js ''Failed to download video: '' @ statusText video_forbidden)"
  have "animateLogo_try world_forbidden logo Landscape =
          Some (download world_forbidden (js ''KEY'') op_finished
                  (loop_effects 0 [op_pending] (submit_effects logo Landscape)))"
    by (rule animateLogo_try_run [OF _ _ reads_forbidden])
      (simp_all add: world_forbidden_def js_def)
  moreover have "download world_forbidden (js ''KEY'') op_finished eff =
                   (Inl ?e, do_call (Fetch (the (op_uri op_finished) @ js ''&key='' @ js ''KEY''))
                              (updateLoadingMessage (js ''Animation complete! Fetching video...'') eff))"
    for eff
    by (rule download_not_ok)
      (simp_all add: world_forbidden_def op_finished_def video_forbidden_def js_def)
  ultimately have "map_option fst (animateLogo world_forbidden logo Landscape)
                     = Some (Inl (animateLogo_catch ?e))"
    by (simp add: animateLogo_def)
  moreover have "animateLogo_catch ?e = ErrorObj (js ''Failed to animate logo. Please try again.'')"
    unfolding animateLogo_catch_eq errorMessage_def thrown.case download_failure_not_found
    by (simp add: video_forbidden_def not_found_text_def generic_message_def js_def)
  moreover have "\<not> str_includes (js ''Failed to animate logo. Please try again.'') (js ''Forbidden'')"
    by (simp add: js_def)
  moreover have "fetch world_forbidden (js ''https://v/1?alt=media&key=KEY'') = Inr video_forbidden"
    by (simp add: world_forbidden_def)
  moreover have "\<not> ok video_forbidden \<and> statusText video_forbidden = js ''Forbidden''"
    by (simp add: video_forbidden_def)
  ultimately show ?thesis using reads_forbidden by simp
qed

section \<open>An empty prompt\<close>

text \<open>
  C6. When every code unit of the prompt is white space (so also when the prompt is
  empty), which is when \<^verbatim>\<open>prompt.trim()\<close> is empty, \<^verbatim>\<open>handleGenerateLogo\<close> makes
  no call at all, sets the validation error, and leaves every other cell of the state
  as it was: the image, the video, the two busy flags, and the rest.
\<close>

theorem handleGenerateLogo_blank_prompt:
  assumes "\<forall>c\<in>set (prompt s). isWhiteSpace c"
  shows "calls (snd (handleGenerateLogo w s)) = []
         \<and> snd (handleGenerateLogo w s) = no_effects
         \<and> error (fst (handleGenerateLogo w s))
             = Some (js ''Please enter a description for your logo.'')
         \<and> generatedImage (fst (handleGenerateLogo w s)) = generatedImage s
         \<and> generatedVideoUrl (fst (handleGenerateLogo w s)) = generatedVideoUrl s
         \<and> isGeneratingImage (fst (handleGenerateLogo w s)) = isGeneratingImage s
         \<and> isGeneratingVideo (fst (handleGenerateLogo w s)) = isGeneratingVideo s
         \<and> fst (handleGenerateLogo w s)
             = s\<lparr>error := Some (js ''Please enter a description for your logo.'')\<rparr>"
proof -
  from assms have "str_trim (prompt s) = []"
    by (simp add: str_trim_empty_iff)
  then have "handleGenerateLogo w s
               = (s\<lparr>error := Some (js ''Please enter a description for your logo.'')\<rparr>,
                  no_effects)"
    by (simp add: handleGenerateLogo_def)
  then show ?thesis by simp
qed

theorem handleGenerateLogo_blank_prompt_witness:
  "prompt blank_prompt = [0x20, 0x09, 0x0A, 0xA0, 0x3000]
   \<and> handleGenerateLogo world_one_pending blank_prompt
       = (blank_prompt\<lparr>error := Some (js ''Please enter a description for your logo.'')\<rparr>,
          no_effects)"
proof -
  have units: "prompt blank_prompt = [0x20, 0x09, 0x0A, 0xA0, 0x3000]"
    by (simp add: blank_prompt_def)
  have blank: "\<forall>c\<in>set (prompt blank_prompt). isWhiteSpace c"
    by (simp add: blank_prompt_def isWhiteSpace_def)
  from handleGenerateLogo_blank_prompt [OF blank, of world_one_pending] units
  show ?thesis
    by (simp add: prod_eq_iff)
qed

section \<open>Animating without an image\<close>

text \<open>
  C10. When \<^verbatim>\<open>generatedImage\<close> is falsy (there is no image), \<^verbatim>\<open>handleAnimateLogo\<close>
  returns at once, in the version with the key gate and in the version without it:
  it makes no call, and the state, with its error and its busy flags, is the state it
  was called in.
\<close>

theorem handleAnimateLogo_without_image:
  assumes "\<not> truthy (generatedImage s)" and "\<not> truthy (generatedImage t)"
  shows "handleAnimateLogo w s = Some (s, no_effects)
         \<and> handleAnimateLogo_plain w t = Some (t, no_effects)
         \<and> calls no_effects = []"
  using assms by (simp add: handleAnimateLogo_def handleAnimateLogo_plain_def)

theorem handleAnimateLogo_without_image_witness:
  "\<not> truthy (generatedImage initial_state) \<and> \<not> truthy (generatedImage help_initial)
   \<and> handleAnimateLogo world_one_pending initial_state = Some (initial_state, no_effects)
   \<and> handleAnimateLogo_plain world_one_pending help_initial = Some (help_initial, no_effects)"
proof -
  have none: "\<not> truthy (generatedImage initial_state)" "\<not> truthy (generatedImage help_initial)"
    by (simp_all add: initial_state_def help_initial_def)
  from handleAnimateLogo_without_image [OF none, of world_one_pending] none
  show ?thesis by simp
qed

section \<open>Reset\<close>

text \<open>
  The reset control is on screen only when a key is selected, and \<^verbatim>\<open>handleReset\<close>
  does not write \<^verbatim>\<open>apiKeySelected\<close>.
\<close>

lemma offers_reset_credential:
  assumes "offers_reset (renderContent s)"
  shows "apiKeySelected s = Some True"
  using assms by (auto simp: renderContent_def split: option.splits bool.splits if_splits)

lemma handleReset_keeps_credential: "apiKeySelected (handleReset s) = apiKeySelected s"
  by (simp add: handleReset_def)

text \<open>
  C7. In every state, \<^verbatim>\<open>handleReset\<close> restores the default prompt, clears the image,
  the video and the error, and sets both busy flags to false. In every state in which
  a key is selected, so in every state in which reset can be invoked, whatever the
  stage, the state it yields is in the Idle stage: the logo form, not busy.
\<close>

theorem handleReset_idle:
  "prompt (handleReset s) = js ''A minimalist fox icon for a tech startup''
   \<and> generatedImage (handleReset s) = None
   \<and> generatedVideoUrl (handleReset s) = None
   \<and> error (handleReset s) = None
   \<and> \<not> isGeneratingImage (handleReset s)
   \<and> \<not> isGeneratingVideo (handleReset s)
   \<and> (apiKeySelected s = Some True \<longrightarrow> stage_of (handleReset s) = Idle)"
  by (simp add: handleReset_def stage_of_def renderContent_def default_prompt_def)

theorem handleReset_idle_witness:
  "apiKeySelected video_ready = Some True \<and> stage_of video_ready = VideoReady
   \<and> stage_of (handleReset video_ready) = Idle
   \<and> handleReset video_ready = initial_state\<lparr>apiKeySelected := Some True\<rparr>"
proof -
  have key: "apiKeySelected video_ready = Some True"
    by (simp add: video_ready_def image_ready_def)
  have "stage_of video_ready = VideoReady"
    by (simp add: video_ready_def image_ready_def stage_of_def renderContent_def js_def)
  moreover have "handleReset video_ready = initial_state\<lparr>apiKeySelected := Some True\<rparr>"
    by (simp add: handleReset_def video_ready_def image_ready_def initial_state_def)
  moreover have "stage_of (handleReset video_ready) = Idle"
    using handleReset_idle [of video_ready] key by blast
  ultimately show ?thesis
    using key by simp
qed

section \<open>A failure that names an invalid key\<close>

text \<open>
  What \<^verbatim>\<open>handleAnimateLogo\<close> catches is what \<^verbatim>\<open>animateLogo\<close> throws, and that is
  one of its two fixed messages. Neither contains \<^verbatim>\<open>API key is invalid\<close>, so the
  branch that sets \<^verbatim>\<open>apiKeySelected\<close> to false is never taken
  (\<open>handleAnimateLogo_keeps_credential\<close>).

  C3, at a failing input. An image is ready, a key is selected, and the submission is
  rejected with the message \<^verbatim>\<open>API key is invalid\<close>. The handler shows the generic
  message, and the key is still marked as selected.
\<close>

theorem handleAnimateLogo_invalid_key:
  "invalid_key (ErrorObj (js ''API key is invalid''))
   \<and> map_option fst (animateLogo_try world_invalid_key logo Landscape)
       = Some (Inl (ErrorObj (js ''API key is invalid'')))
   \<and> map_option fst (handleAnimateLogo world_invalid_key image_ready)
       = Some (image_ready
                 \<lparr>videoLoadingMessage := js ''Initiating animation sequence...'',
                   error := Some (js ''Failed to animate logo. Please try again.'')\<rparr>)
   \<and> map_option (apiKeySelected \<circ> fst) (handleAnimateLogo world_invalid_key image_ready)
       = Some (Some True)"
proof -
  let ?e = "ErrorObj (js ''API key is invalid'')"
  have raised: "animateLogo_try world_invalid_key logo Landscape
                  = Some (Inl ?e, submit_effects logo Landscape)"
    by (rule animateLogo_try_submit_throws [where key = "js ''KEY''"])
      (simp_all add: world_invalid_key_def js_def)
  have "\<not> str_includes (js ''API key is invalid'') not_found_text"
    by (simp add: not_found_text_def js_def)
  then have caught: "animateLogo_catch ?e = ErrorObj generic_message"
    by (simp add: animateLogo_catch_eq errorMessage_def)
  have run: "animateLogo world_invalid_key logo Landscape
               = Some (Inl (ErrorObj generic_message),
                       console_error ?e (submit_effects logo Landscape))"
    using animateLogo_fails [OF raised] caught by simp
  have img: "generatedImage image_ready = Some logo" "aspectRatio image_ready = Landscape"
    "logo \<noteq> []"
    by (simp_all add: image_ready_def initial_state_def logo_def js_def)
  have shown: "shown_error (ErrorObj generic_message) = generic_message"
    by (simp add: shown_error_def)
  have "\<not> invalid_key (ErrorObj generic_message)"
    by (simp add: invalid_key_def fixed_messages_no_invalid_key)
  then have "handleAnimateLogo world_invalid_key image_ready
          = Some (image_ready
                    \<lparr>videoLoadingMessage := js ''Initiating animation sequence...'',
                      error := Some generic_message\<rparr>,
                  console_error ?e (submit_effects logo Landscape))"
    by (simp add: handleAnimateLogo_def img run shown foldl_setVideoLoadingMessage
        handleAnimateLogo_begin_def submit_effects_def)
      (simp add: image_ready_def initial_state_def)
  moreover have "invalid_key ?e"
    by (simp add: invalid_key_def js_def)
  moreover have "apiKeySelected image_ready = Some True"
    by (simp add: image_ready_def)
  ultimately show ?thesis
    using raised by (simp add: generic_message_def)
qed

section \<open>Selecting a key while an error is shown\<close>

text \<open>
  \<^verbatim>\<open>handleGenerateLogo\<close> and \<^verbatim>\<open>handleAnimateLogo\<close> clear the error before they
  call the service; \<^verbatim>\<open>handleSelectKey\<close> never writes \<^verbatim>\<open>null\<close> to it.
\<close>

lemma begin_clears_error:
  "error (handleGenerateLogo_begin s) = None" "error (handleAnimateLogo_begin s) = None"
  by (simp_all add: handleGenerateLogo_begin_def handleAnimateLogo_begin_def)

lemma handleSelectKey_keeps_error:
  assumes "openSelectKey w = Inr u"
  shows "error (fst (handleSelectKey w s)) = error s"
  using assms by (simp add: handleSelectKey_def)

text \<open>
  C8, at a failing input. The chooser failed once, so its error is shown and no key is
  selected; the user selects a key again and the chooser opens. The key is marked as
  selected, and the error of the first attempt is still set.
\<close>

theorem handleSelectKey_stale_error:
  "error chooser_failed
     = Some (js ''Could not open API key selection. Please ensure you are in a supported environment.'')
   \<and> openSelectKey world_one_pending = Inr ()
   \<and> handleSelectKey world_one_pending chooser_failed
       = (chooser_failed\<lparr>apiKeySelected := Some True\<rparr>, do_call OpenSelectKey no_effects)
   \<and> error (fst (handleSelectKey world_one_pending chooser_failed))
       = Some (js ''Could not open API key selection. Please ensure you are in a supported environment.'')
   \<and> stage_of (fst (handleSelectKey world_one_pending chooser_failed)) = Idle"
  by (simp add: handleSelectKey_def world_one_pending_def chooser_failed_def initial_state_def
      stage_of_def renderContent_def)


section \<open>The aspect ratio\<close>

lemma calls_generateLogoImage_try:
  "calls (snd (generateLogoImage_try w p)) =
     (case getGeminiClient w of Inl e \<Rightarrow> [] | Inr ai \<Rightarrow> [GenerateImages (image_request_of p)])"
  by (simp add: generateLogoImage_try_def Let_def
      split: sum.splits option.splits list.splits)

lemma calls_generateLogoImage:
  "calls (snd (generateLogoImage w p)) =
     (case getGeminiClient w of Inl e \<Rightarrow> [] | Inr ai \<Rightarrow> [GenerateImages (image_request_of p)])"
proof -
  have "calls (snd (generateLogoImage w p)) = calls (snd (generateLogoImage_try w p))"
    by (cases "generateLogoImage_try w p") (simp add: generateLogoImage_def split: sum.splits)
  then show ?thesis by (simp add: calls_generateLogoImage_try)
qed

lemma calls_handleGenerateLogo:
  "calls (snd (handleGenerateLogo w s)) =
     (if str_trim (prompt s) = [] then []
      else case getGeminiClient w of
             Inl e \<Rightarrow> []
           | Inr ai \<Rightarrow> [GenerateImages (image_request_of (prompt s))])"
proof (cases "str_trim (prompt s) = []")
  case True
  then show ?thesis by (simp add: handleGenerateLogo_def)
next
  case False
  then have "snd (handleGenerateLogo w s) = snd (generateLogoImage w (prompt s))"
    by (cases "generateLogoImage w (prompt s)")
      (simp add: handleGenerateLogo_def Let_def split: sum.splits)
  with False show ?thesis by (simp add: calls_generateLogoImage)
qed

lemma handleGenerateLogo_setAspectRatio:
  "handleGenerateLogo w (setAspectRatio ar s)
     = (setAspectRatio ar (fst (handleGenerateLogo w s)), snd (handleGenerateLogo w s))"
  by (cases "generateLogoImage w (prompt s)")
    (simp add: handleGenerateLogo_def handleGenerateLogo_begin_def setAspectRatio_def Let_def
      split: sum.splits)

text \<open>
  C9. Selecting an aspect ratio writes the aspect ratio and nothing else, so the image
  that was generated stays as it is. The request for an image always asks for the
  ratio \<^verbatim>\<open>1:1\<close>: it is the only call \<^verbatim>\<open>handleGenerateLogo\<close> makes, and the
  handler does after a selection what it does before it. The selection is what the
  next \<^verbatim>\<open>handleAnimateLogo\<close> submits: the first call of a run is the submission
  with the selected ratio.
\<close>

theorem aspect_ratio_only_animation:
  "generatedImage (setAspectRatio ar s) = generatedImage s
   \<and> setAspectRatio ar s = s\<lparr>aspectRatio := ar\<rparr>
   \<and> gi_aspectRatio (image_request_of p) = js ''1:1''
   \<and> (\<forall>c\<in>set (calls (snd (handleGenerateLogo w s))).
         c = GenerateImages (image_request_of (prompt s)))
   \<and> handleGenerateLogo w (setAspectRatio ar s)
       = (setAspectRatio ar (fst (handleGenerateLogo w s)), snd (handleGenerateLogo w s))
   \<and> (\<forall>t' eff. truthy (generatedImage t)
         \<longrightarrow> handleAnimateLogo w (setAspectRatio ar t) = Some (t', eff)
         \<longrightarrow> calls eff \<noteq> []
         \<longrightarrow> hd (calls eff) = GenerateVideos (video_request_of (the (generatedImage t)) ar)
             \<and> gv_aspectRatio (video_request_of (the (generatedImage t)) ar) = aspect_text ar)"
proof -
  have "hd (calls eff) = GenerateVideos (video_request_of (the (generatedImage t)) ar)"
    if img: "truthy (generatedImage t)"
      and run: "handleAnimateLogo w (setAspectRatio ar t) = Some (t', eff)"
      and ne: "calls eff \<noteq> []" for t' eff
  proof -
    from img run obtain r where "animateLogo w (the (generatedImage t)) ar = Some (r, eff)"
      by (cases "animateLogo w (the (generatedImage t)) ar")
        (auto simp: handleAnimateLogo_def setAspectRatio_def Let_def split: sum.splits)
    then show ?thesis using ne by (rule animateLogo_first_call)
  qed
  moreover have "\<forall>c\<in>set (calls (snd (handleGenerateLogo w s))).
                   c = GenerateImages (image_request_of (prompt s))"
    by (simp add: calls_handleGenerateLogo split: sum.splits)
  ultimately show ?thesis
    by (simp add: handleGenerateLogo_setAspectRatio)
      (simp add: setAspectRatio_def image_request_of_def video_request_of_def)
qed


theorem aspect_ratio_only_animation_witness:
  "truthy (generatedImage image_ready)
   \<and> generatedImage (setAspectRatio Portrait image_ready) = Some logo
   \<and> (\<exists>t' eff. handleAnimateLogo world_one_pending (setAspectRatio Portrait image_ready)
                   = Some (t', eff)
         \<and> calls eff \<noteq> []
         \<and> hd (calls eff) = GenerateVideos (video_request_of logo Portrait))
   \<and> gv_aspectRatio (video_request_of logo Portrait) = js ''9:16''"
proof -
  let ?eff = "do_call (Fetch (the (op_uri op_finished) @ js ''&key='' @ js ''KEY''))
                (updateLoadingMessage (js ''Animation complete! Fetching video...'')
                   (loop_effects 0 [op_pending] (submit_effects logo Portrait)))"
  have img: "generatedImage image_ready = Some logo" "logo \<noteq> []"
    by (simp_all add: image_ready_def initial_state_def logo_def js_def)
  have run: "animateLogo world_one_pending logo Portrait
               = Some (Inr (createObjectURL world_one_pending (js ''mp4'')), ?eff)"
    by (rule animateLogo_returns [where response = video_ok, OF _ _ reads_one_pending])
      (simp_all add: world_one_pending_def op_finished_def video_ok_def js_def)
  then obtain t' where
    handled: "handleAnimateLogo world_one_pending (setAspectRatio Portrait image_ready)
                = Some (t', ?eff)"
    by (simp add: handleAnimateLogo_def setAspectRatio_def img)
  have ne: "calls ?eff \<noteq> []"
    by simp
  have tr: "truthy (generatedImage image_ready)"
    by (simp add: img)
  have first: "hd (calls eff) = GenerateVideos (video_request_of (the (generatedImage image_ready)) Portrait)"
    if "handleAnimateLogo world_one_pending (setAspectRatio Portrait image_ready) = Some (t', eff)"
      and "calls eff \<noteq> []" for t' eff
    using aspect_ratio_only_animation
      [where ar = Portrait and s = image_ready and t = image_ready and w = world_one_pending]
      tr that by blast
  have "hd (calls ?eff) = GenerateVideos (video_request_of (the (generatedImage image_ready)) Portrait)"
    using handled ne by (rule first)
  then have "hd (calls ?eff) = GenerateVideos (video_request_of logo Portrait)"
    by (simp only: img option.sel)
  moreover have "generatedImage (setAspectRatio Portrait image_ready) = Some logo"
    by (simp add: setAspectRatio_def img)
  moreover have "gv_aspectRatio (video_request_of logo Portrait) = js ''9:16''"
    by (simp add: video_request_of_def)
  ultimately show ?thesis
    using handled ne tr by blast
qed

end
